theory Spec2Isabelle
  imports Main "HOL-Library.AList"
begin

section \<open>The Bluetooth connection screen and the Info.plist plugin\<close>

text \<open>
  Two source files are embedded here.

  \<^item> The screen component \<^verbatim>\<open>Bluetooth()\<close> (src/unnamed/part_000): five pieces of React
    state and the asynchronous handlers \<^verbatim>\<open>checkBluetooth\<close>, \<^verbatim>\<open>requestPermissions\<close>,
    \<^verbatim>\<open>discoverDevices\<close>, \<^verbatim>\<open>connectToDevice\<close> and \<^verbatim>\<open>disconnectDevice\<close>.
  \<^item> The config plugin \<^verbatim>\<open>withBluetoothClassic\<close> (src/plugins/withBluetoothClassic.js).

  The handlers are modelled by explicit state passing. A handler takes the outcomes of
  the external calls it makes (record \<open>env\<close>) and the screen state, and returns what
  the \<^verbatim>\<open>async\<close> function settles with (\<open>Inl\<close>: it rejects with the thrown value,
  \<open>Inr\<close>: it resolves) together with the new state. Everything a handler does outside
  the React state (alerts, console output, calls into the native libraries) is appended
  to the field \<open>trace\<close>, oldest first.
\<close>

subsection \<open>Thrown values\<close>

text \<open>
  A JavaScript \<^verbatim>\<open>throw\<close> can carry any value. The handlers only ever read
  \<^verbatim>\<open>error.message\<close> from what they catch, so a thrown value is abstracted to: an
  Error object with its message, the two built-in errors the screen itself can raise,
  and \<^verbatim>\<open>null\<close>/\<^verbatim>\<open>undefined\<close>, on which reading \<^verbatim>\<open>.message\<close> raises a
  TypeError in turn.
\<close>

datatype thrown =
    JsError string
  | ReferenceError string
  | TypeError string
  | Nullish

text \<open>
  \<^verbatim>\<open>error.message\<close>. The wording of the built-in messages depends on the JavaScript
  engine; nothing below depends on it.
\<close>

fun message :: "thrown \<Rightarrow> thrown + string" where
  "message (JsError m) = Inr m"
| "message (ReferenceError x) = Inr (x @ '' is not defined'')"
| "message (TypeError m) = Inr m"
| "message Nullish = Inl (TypeError ''Cannot read properties of undefined (reading message)'')"

subsection \<open>Devices, permissions, events\<close>

text \<open>\<^verbatim>\<open>BluetoothDevice\<close>, as far as the screen reads it: \<^verbatim>\<open>name\<close> and \<^verbatim>\<open>address\<close>.\<close>

record device =
  name :: "string option"
  address :: string

text \<open>
  The members of \<^verbatim>\<open>PermissionsAndroid.PERMISSIONS\<close> and
  \<^verbatim>\<open>PermissionsAndroid.RESULTS\<close> that the screen and its specification name.
\<close>

datatype permission =
    ACCESS_FINE_LOCATION
  | ACCESS_COARSE_LOCATION
  | BLUETOOTH_SCAN
  | BLUETOOTH_CONNECT

datatype permission_status = GRANTED | DENIED | NEVER_ASK_AGAIN

datatype event =
    Alert_alert string string
  | Console_error string thrown
  | Called_isBluetoothEnabled
  | Called_requestMultiple "permission list"
  | Called_askAsync
  | Called_startDiscovery
  | Called_connect device
  | Called_disconnect device

subsection \<open>The screen state\<close>

text \<open>
  The five \<^verbatim>\<open>useState\<close> cells of the component, with their initial values in
  \<open>initial_screen\<close>, and the trace of effects.
\<close>

record screen =
  devices :: "device list"
  connectedDevice :: "device option"
  loading :: bool
  scanning :: bool
  isBtEnabled :: bool
  trace :: "event list"

definition initial_screen :: screen where
  "initial_screen =
     \<lparr>devices = [], connectedDevice = None, loading = False, scanning = False,
      isBtEnabled = False, trace = []\<rparr>"

definition emit :: "event \<Rightarrow> screen \<Rightarrow> screen" where
  "emit ev s = s\<lparr>trace := trace s @ [ev]\<rparr>"

subsection \<open>The external collaborators\<close>

text \<open>
  What the platform and the native libraries answer during one run of a handler.

  \<^item> \<open>Platform_OS\<close>: \<^verbatim>\<open>Platform.OS\<close>.
  \<^item> \<open>Device_osVersion\<close>: \<^verbatim>\<open>Device.osVersion\<close>, a string or \<^verbatim>\<open>null\<close>.
  \<^item> \<open>global_Permissions\<close>: the identifier \<^verbatim>\<open>Permissions\<close> is used by
    \<^verbatim>\<open>requestPermissions\<close> but the module neither imports nor declares it (its imports
    are \<^verbatim>\<open>MaterialCommunityIcons\<close>, \<^verbatim>\<open>Device\<close>, \<^verbatim>\<open>React\<close>, the React Native
    components with \<^verbatim>\<open>PermissionsAndroid\<close> and \<^verbatim>\<open>Platform\<close>, and
    \<^verbatim>\<open>RNBluetoothClassic\<close>), so it resolves against the global object of the runtime.
    \<open>None\<close>: the global object has no such property, as in React Native;
    \<open>Some r\<close>: it has one whose \<^verbatim>\<open>askAsync\<close> can be called, the call is made, and
    \<^verbatim>\<open>(await Permissions.askAsync(Permissions.BLUETOOTH)).status\<close> settles with \<open>r\<close>.
  \<^item> \<open>requestMultiple\<close>: \<^verbatim>\<open>PermissionsAndroid.requestMultiple\<close>; the object it resolves
    with is a list of entries in key order.
  \<^item> \<open>isBluetoothEnabled\<close>, \<open>startDiscovery\<close>: the calls on \<^verbatim>\<open>RNBluetoothClassic\<close>.
  \<^item> \<open>device_connect\<close>, \<open>device_disconnect\<close>: the methods of a \<^verbatim>\<open>BluetoothDevice\<close>.
\<close>

record env =
  Platform_OS :: string
  Device_osVersion :: "string option"
  global_Permissions :: "(thrown + string) option"
  requestMultiple :: "permission list \<Rightarrow> thrown + (permission \<times> permission_status) list"
  isBluetoothEnabled :: "thrown + bool"
  startDiscovery :: "thrown + device list"
  device_connect :: "device \<Rightarrow> thrown + bool"
  device_disconnect :: "device \<Rightarrow> thrown + bool"

subsection \<open>\<^verbatim>\<open>parseInt(s, 10)\<close>\<close>

text \<open>
  \<^verbatim>\<open>parseInt\<close> skips leading white space, reads an optional sign and then the longest
  run of decimal digits; with no digit there the result is \<^verbatim>\<open>NaN\<close> (\<open>None\<close>). The
  result is a double, but it is only compared with 12, and rounding to a double is
  monotone and leaves 12 alone, so the integer decides the comparison. Characters are
  bytes here, so only the ASCII white space is skipped.
\<close>

definition is_digit :: "char \<Rightarrow> bool" where
  "is_digit c = (48 \<le> (of_char c :: nat) \<and> (of_char c :: nat) \<le> 57)"

definition is_space :: "char \<Rightarrow> bool" where
  "is_space c = ((of_char c :: nat) = 32 \<or> (9 \<le> (of_char c :: nat) \<and> (of_char c :: nat) \<le> 13))"

fun digits_value :: "nat \<Rightarrow> string \<Rightarrow> nat" where
  "digits_value acc [] = acc"
| "digits_value acc (c # cs) =
     (if is_digit c then digits_value (acc * 10 + (of_char c - 48)) cs else acc)"

definition parseInt10 :: "string \<Rightarrow> int option" where
  "parseInt10 s =
     (let t = dropWhile is_space s;
          neg = (case t of [] \<Rightarrow> False | c # _ \<Rightarrow> c = CHR ''-'');
          u = (case t of [] \<Rightarrow> [] | c # cs \<Rightarrow> if c = CHR ''-'' \<or> c = CHR ''+'' then cs else t)
      in case u of
           [] \<Rightarrow> None
         | c # _ \<Rightarrow>
             if is_digit c
             then Some (if neg then - int (digits_value 0 u) else int (digits_value 0 u))
             else None)"

subsection \<open>\<^verbatim>\<open>checkBluetooth\<close>\<close>

definition checkBluetooth :: "env \<Rightarrow> screen \<Rightarrow> (thrown + bool) \<times> screen" where
  "checkBluetooth e s =
     (let s1 = emit Called_isBluetoothEnabled s in
      case isBluetoothEnabled e of
        Inr enabled \<Rightarrow> (Inr enabled, s1\<lparr>isBtEnabled := enabled\<rparr>)
      | Inl error \<Rightarrow> (Inr False, emit (Console_error ''Bluetooth check failed'' error) s1))"

subsection \<open>\<^verbatim>\<open>requestPermissions\<close>\<close>

text \<open>\<^verbatim>\<open>xs.splice(start, count)\<close> with no items to insert, for \<open>start\<close> within the array.\<close>

definition splice :: "nat \<Rightarrow> nat \<Rightarrow> 'a list \<Rightarrow> 'a list" where
  "splice start count xs = take start xs @ drop (start + count) xs"

text \<open>
  The array passed to \<^verbatim>\<open>requestMultiple\<close>. The guard
  \<^verbatim>\<open>Device.osVersion && parseInt(Device.osVersion, 10) < 12\<close> is false for
  \<^verbatim>\<open>null\<close>, for the empty string and for \<^verbatim>\<open>NaN\<close>.
\<close>

definition android_permissions :: "string option \<Rightarrow> permission list" where
  "android_permissions osVersion =
     (let permissions = [ACCESS_FINE_LOCATION, BLUETOOTH_SCAN, BLUETOOTH_CONNECT] in
      if (case osVersion of
            None \<Rightarrow> False
          | Some v \<Rightarrow> v \<noteq> [] \<and> (case parseInt10 v of None \<Rightarrow> False | Some n \<Rightarrow> n < 12))
      then splice 1 2 permissions
      else permissions)"

definition requestPermissions :: "env \<Rightarrow> screen \<Rightarrow> (thrown + bool) \<times> screen" where
  "requestPermissions e s =
     (if Platform_OS e = ''android'' then
        (let permissions = android_permissions (Device_osVersion e);
             s1 = emit (Called_requestMultiple permissions) s in
         case requestMultiple e permissions of
           Inl error \<Rightarrow> (Inl error, s1)
         | Inr granted \<Rightarrow>
             (Inr (list_all (\<lambda>status. status = GRANTED) (map snd granted)), s1))
      else
        (case global_Permissions e of
           None \<Rightarrow> (Inl (ReferenceError ''Permissions''), s)
         | Some r \<Rightarrow>
             (case r of
                Inl error \<Rightarrow> (Inl error, emit Called_askAsync s)
              | Inr status \<Rightarrow> (Inr (status = ''granted''), emit Called_askAsync s))))"

subsection \<open>\<^verbatim>\<open>try\<close> / \<^verbatim>\<open>catch\<close> / \<^verbatim>\<open>finally\<close>\<close>

text \<open>
  The body runs; if it throws, the handler runs on the state the body left; the cleanup
  runs last in every case, also after a \<^verbatim>\<open>return\<close> inside the body and when the
  handler itself throws, and then the statement completes as the body or the handler did.
\<close>

definition try_catch_finally ::
  "(screen \<Rightarrow> (thrown + unit) \<times> screen) \<Rightarrow> (thrown \<Rightarrow> screen \<Rightarrow> (thrown + unit) \<times> screen) \<Rightarrow>
   (screen \<Rightarrow> screen) \<Rightarrow> screen \<Rightarrow> (thrown + unit) \<times> screen" where
  "try_catch_finally body handler cleanup s =
     (let (r, s1) = body s;
          (r', s2) = (case r of Inl error \<Rightarrow> handler error s1 | Inr v \<Rightarrow> (Inr v, s1))
      in (r', cleanup s2))"

text \<open>
  The three handlers share one shape of \<^verbatim>\<open>catch\<close> block: \<^verbatim>\<open>console.error(tag, error)\<close>,
  then \<^verbatim>\<open>Alert.alert('Error', prefix + error.message)\<close>.
\<close>

definition log_and_alert :: "string \<Rightarrow> string \<Rightarrow> thrown \<Rightarrow> screen \<Rightarrow> (thrown + unit) \<times> screen" where
  "log_and_alert tag prefix error s =
     (let s1 = emit (Console_error tag error) s in
      case message error of
        Inl type_error \<Rightarrow> (Inl type_error, s1)
      | Inr m \<Rightarrow> (Inr (), emit (Alert_alert ''Error'' (prefix @ m)) s1))"

subsection \<open>\<^verbatim>\<open>discoverDevices\<close>\<close>

definition discoverDevices_try :: "env \<Rightarrow> screen \<Rightarrow> (thrown + unit) \<times> screen" where
  "discoverDevices_try e s =
     (let s1 = s\<lparr>scanning := True, devices := []\<rparr>;
          (r, s2) = requestPermissions e s1
      in case r of
           Inl error \<Rightarrow> (Inl error, s2)
         | Inr hasPermissions \<Rightarrow>
             if \<not> hasPermissions
             then (Inr (),
                   emit (Alert_alert ''Permissions required''
                     ''Bluetooth and location permissions are needed to find devices'') s2)
             else
               (let (r', s3) = checkBluetooth e s2
                in case r' of
                     Inl error \<Rightarrow> (Inl error, s3)
                   | Inr enabled \<Rightarrow>
                       if \<not> enabled
                       then (Inr (),
                             emit (Alert_alert ''Bluetooth disabled''
                               ''Please enable Bluetooth to discover devices'') s3)
                       else
                         (let s4 = emit Called_startDiscovery s3
                          in case startDiscovery e of
                               Inl error \<Rightarrow> (Inl error, s4)
                             | Inr discovered \<Rightarrow> (Inr (), s4\<lparr>devices := discovered\<rparr>))))"

definition discoverDevices :: "env \<Rightarrow> screen \<Rightarrow> (thrown + unit) \<times> screen" where
  "discoverDevices e =
     try_catch_finally (discoverDevices_try e)
       (log_and_alert ''Discovery error'' ''Failed to discover devices: '')
       (\<lambda>s. s\<lparr>scanning := False\<rparr>)"

subsection \<open>\<^verbatim>\<open>connectToDevice\<close>\<close>

definition connectToDevice_try :: "env \<Rightarrow> device \<Rightarrow> screen \<Rightarrow> (thrown + unit) \<times> screen" where
  "connectToDevice_try e d s =
     (let s1 = emit (Called_connect d) (s\<lparr>loading := True\<rparr>)
      in case device_connect e d of
           Inl error \<Rightarrow> (Inl error, s1)
         | Inr isConnected \<Rightarrow>
             if isConnected
             then (Inr (), s1\<lparr>connectedDevice := Some d\<rparr>)
             else (Inr (),
                   emit (Alert_alert ''Connection failed'' ''Could not connect to the device'') s1))"

definition connectToDevice :: "env \<Rightarrow> device \<Rightarrow> screen \<Rightarrow> (thrown + unit) \<times> screen" where
  "connectToDevice e d =
     try_catch_finally (connectToDevice_try e d)
       (log_and_alert ''Connection error'' ''Connection failed: '')
       (\<lambda>s. s\<lparr>loading := False\<rparr>)"

subsection \<open>\<^verbatim>\<open>disconnectDevice\<close>\<close>

text \<open>The value \<^verbatim>\<open>connectedDevice.disconnect()\<close> resolves with is not read.\<close>

definition disconnectDevice_try :: "env \<Rightarrow> device \<Rightarrow> screen \<Rightarrow> (thrown + unit) \<times> screen" where
  "disconnectDevice_try e d s =
     (let s1 = emit (Called_disconnect d) (s\<lparr>loading := True\<rparr>)
      in case device_disconnect e d of
           Inl error \<Rightarrow> (Inl error, s1)
         | Inr _ \<Rightarrow> (Inr (), s1\<lparr>connectedDevice := None\<rparr>))"

definition disconnectDevice :: "env \<Rightarrow> screen \<Rightarrow> (thrown + unit) \<times> screen" where
  "disconnectDevice e s =
     (case connectedDevice s of
        None \<Rightarrow> (Inr (), s)
      | Some d \<Rightarrow>
          try_catch_finally (disconnectDevice_try e d)
            (log_and_alert ''Disconnection error'' ''Disconnection failed: '')
            (\<lambda>s. s\<lparr>loading := False\<rparr>) s)"

subsection \<open>The config plugin \<^verbatim>\<open>withBluetoothClassic\<close>\<close>

text \<open>
  \<^verbatim>\<open>mod.modResults\<close> is the parsed Info.plist: a JavaScript object, here a list of
  key/value entries in insertion order. Assigning to a property replaces the value of an
  existing key in place and appends a new key at the end, which is \<open>AList.update\<close>.
\<close>

datatype plist_value =
    PString string
  | PArray "string list"
  | PBool bool
  | PDict "(string \<times> plist_value) list"

type_synonym plist = "(string \<times> plist_value) list"

record modT =
  modResults :: plist

text \<open>The function handed to \<^verbatim>\<open>withInfoPlist\<close>.\<close>

definition withBluetoothClassic_action :: "'a modT_scheme \<Rightarrow> 'a modT_scheme" where
  "withBluetoothClassic_action md =
     (let m1 = md\<lparr>modResults :=
                 AList.update ''NSBluetoothAlwaysUsageDescription''
                   (PString ''Allow Bluetooth access to connect to E-Cleaning devices'')
                   (modResults md)\<rparr>;
          m2 = m1\<lparr>modResults :=
                 AList.update ''NSBluetoothPeripheralUsageDescription''
                   (PString ''Allow Bluetooth access to connect to E-Cleaning devices'')
                   (modResults m1)\<rparr>;
          m3 = m2\<lparr>modResults :=
                 AList.update ''UIBackgroundModes'' (PArray [''bluetooth-central''])
                   (modResults m2)\<rparr>
      in m3)"

text \<open>
  \<^verbatim>\<open>withInfoPlist\<close> belongs to the library \<^verbatim>\<open>expo/config-plugins\<close>, not to this
  repository. The library call itself only registers the action among the mods of the
  configuration; the action runs later, when the native project is generated, on an
  object whose \<^verbatim>\<open>modResults\<close> is the Info.plist, and the \<^verbatim>\<open>modResults\<close> of what it
  returns is the manifest the packaging tool gets. The definition below stands for that
  run: its argument is the object the action receives and its result the object the
  action returns. Only the component \<open>modResults\<close> of the result is the manifest; what
  the library does to the rest of the configuration (its registry of mods, the copy of
  the manifest it keeps) is not modelled, and nothing is claimed about it.
\<close>

definition withInfoPlist :: "'a modT_scheme \<Rightarrow> ('a modT_scheme \<Rightarrow> 'a modT_scheme) \<Rightarrow> 'a modT_scheme" where
  "withInfoPlist config action = action config"

definition withBluetoothClassic :: "'a modT_scheme \<Rightarrow> 'a modT_scheme" where
  "withBluetoothClassic config = withInfoPlist config withBluetoothClassic_action"

text \<open>The entries of the background-modes list of a manifest; none when the key is absent.\<close>

definition background_modes :: "plist \<Rightarrow> string list" where
  "background_modes p =
     (case map_of p ''UIBackgroundModes'' of Some (PArray xs) \<Rightarrow> xs | _ \<Rightarrow> [])"

subsection \<open>Concrete inputs\<close>

text \<open>
  One device and one run of the collaborators, on which the statements below are
  evaluated: Android 13, every permission granted, the adapter on, discovery finding the
  device, and both device calls resolving with \<^verbatim>\<open>true\<close>. Other runs are written as
  record updates of this one.
\<close>

definition deviceA :: device where
  "deviceA = \<lparr>name = Some ''E-Cleaning'', address = ''00:11:22:33:44:55''\<rparr>"

definition android_env :: env where
  "android_env =
     \<lparr>Platform_OS = ''android'', Device_osVersion = Some ''13'', global_Permissions = None,
      requestMultiple = (\<lambda>ps. Inr (map (\<lambda>p. (p, GRANTED)) ps)),
      isBluetoothEnabled = Inr True, startDiscovery = Inr [deviceA],
      device_connect = (\<lambda>d. Inr True), device_disconnect = (\<lambda>d. Inr True)\<rparr>"

text \<open>The same run with every requested permission denied.\<close>

definition denied_env :: env where
  "denied_env = android_env\<lparr>requestMultiple := (\<lambda>ps. Inr (map (\<lambda>p. (p, DENIED)) ps))\<rparr>"

section \<open>Properties\<close>

lemmas handler_defs = try_catch_finally_def log_and_alert_def emit_def

subsection \<open>\<^verbatim>\<open>disconnectDevice\<close>\<close>

lemma disconnectDevice_noop:
  "connectedDevice s = None \<Longrightarrow> disconnectDevice e s = (Inr (), s)"
  by (simp add: disconnectDevice_def)

lemma disconnectDevice_thrown:
  assumes "connectedDevice s = Some d" and "device_disconnect e d = Inl err"
    and "message err = Inr m"
  shows "disconnectDevice e s =
           (Inr (),
            s\<lparr>loading := False,
              trace := trace s @
                [Called_disconnect d, Console_error ''Disconnection error'' err,
                 Alert_alert ''Error'' (''Disconnection failed: '' @ m)]\<rparr>)"
  using assms by (simp add: disconnectDevice_def disconnectDevice_try_def handler_defs)

lemma disconnectDevice_resolved:
  assumes "connectedDevice s = Some d" and "device_disconnect e d = Inr b"
  shows "disconnectDevice e s =
           (Inr (),
            s\<lparr>connectedDevice := None, loading := False,
              trace := trace s @ [Called_disconnect d]\<rparr>)"
  using assms by (simp add: disconnectDevice_def disconnectDevice_try_def handler_defs)

text \<open>
  Claim C1. With no device connected \<^verbatim>\<open>disconnectDevice\<close> does nothing
  (\<open>disconnectDevice_noop\<close>), and when the device's \<^verbatim>\<open>disconnect()\<close> throws, the
  device stays recorded as connected and an alert is shown (\<open>disconnectDevice_thrown\<close>).
  But the handler never reads the boolean that \<^verbatim>\<open>disconnect()\<close> resolves with
  (\<open>disconnectDevice_resolved\<close> holds for either value of \<open>b\<close>), whereas
  \<^verbatim>\<open>connectToDevice\<close> does test the boolean of \<^verbatim>\<open>connect()\<close>. So on a
  \<^verbatim>\<open>false\<close> result the claim says the device is still recorded as connected, and the
  code records no connected device and shows no alert: with \<open>deviceA\<close> connected and
  \<^verbatim>\<open>disconnect()\<close> resolving with \<^verbatim>\<open>false\<close>, the screen ends with
  \<open>connectedDevice = None\<close> and the call as the only event.
\<close>

theorem disconnectDevice_false_result:
  "disconnectDevice (android_env\<lparr>device_disconnect := (\<lambda>d. Inr False)\<rparr>)
       (initial_screen\<lparr>connectedDevice := Some deviceA\<rparr>)
     = (Inr (), initial_screen\<lparr>trace := [Called_disconnect deviceA]\<rparr>)"
  by (simp add: disconnectDevice_def disconnectDevice_try_def handler_defs initial_screen_def)

subsection \<open>\<^verbatim>\<open>checkBluetooth\<close>\<close>

text \<open>
  Claim C2, as amended. When \<^verbatim>\<open>isBluetoothEnabled()\<close> throws, \<^verbatim>\<open>checkBluetooth\<close>
  does not throw: it resolves with \<^verbatim>\<open>false\<close>, the adapter reported as disabled; it logs
  the failure with \<^verbatim>\<open>console.error\<close>; and it changes nothing else of the screen. In
  particular the stored adapter flag \<open>isBtEnabled\<close> keeps the value it had: it is
  written only when the query succeeds.
\<close>

theorem checkBluetooth_failure:
  assumes "isBluetoothEnabled e = Inl err"
  shows "checkBluetooth e s =
           (Inr False,
            s\<lparr>trace := trace s @
                [Called_isBluetoothEnabled, Console_error ''Bluetooth check failed'' err]\<rparr>)
         \<and> isBtEnabled (snd (checkBluetooth e s)) = isBtEnabled s"
  using assms by (simp add: checkBluetooth_def emit_def)

theorem checkBluetooth_failure_witness:
  "checkBluetooth (android_env\<lparr>isBluetoothEnabled := Inl (JsError ''adapter unavailable'')\<rparr>)
       (initial_screen\<lparr>isBtEnabled := True\<rparr>)
     = (Inr False,
        initial_screen\<lparr>isBtEnabled := True,
          trace := [Called_isBluetoothEnabled,
                    Console_error ''Bluetooth check failed'' (JsError ''adapter unavailable'')]\<rparr>)"
  using checkBluetooth_failure
    [of "android_env\<lparr>isBluetoothEnabled := Inl (JsError ''adapter unavailable'')\<rparr>"
        "JsError ''adapter unavailable''" "initial_screen\<lparr>isBtEnabled := True\<rparr>"]
  by (simp add: initial_screen_def)

text \<open>
  Claim C2 as stated fails: after an earlier successful check has stored \<open>True\<close>, a
  query that throws leaves the stored flag \<open>True\<close>, not disabled.
\<close>

theorem checkBluetooth_failure_keeps_enabled:
  "isBluetoothEnabled (android_env\<lparr>isBluetoothEnabled := Inl (JsError ''adapter unavailable'')\<rparr>)
     = Inl (JsError ''adapter unavailable'')
   \<and> isBtEnabled (snd (checkBluetooth
        (android_env\<lparr>isBluetoothEnabled := Inl (JsError ''adapter unavailable'')\<rparr>)
        (initial_screen\<lparr>isBtEnabled := True\<rparr>))) \<noteq> False"
  by (simp add: checkBluetooth_def emit_def)

subsection \<open>\<^verbatim>\<open>requestPermissions\<close>\<close>

lemma requestPermissions_unbound:
  "Platform_OS e \<noteq> ''android'' \<Longrightarrow> global_Permissions e = None \<Longrightarrow>
   requestPermissions e s = (Inl (ReferenceError ''Permissions''), s)"
  by (simp add: requestPermissions_def)

lemma requestPermissions_android:
  assumes "Platform_OS e = ''android''"
    and "requestMultiple e (android_permissions (Device_osVersion e)) = Inr granted"
  shows "fst (requestPermissions e s) = Inr (\<forall>(p, status) \<in> set granted. status = GRANTED)"
  using assms by (auto simp add: requestPermissions_def list_all_iff)

text \<open>
  Claim C3. On Android the handler resolves with a boolean that is true exactly when
  every entry of the result of \<^verbatim>\<open>requestMultiple\<close> is granted
  (\<open>requestPermissions_android\<close>). On every other platform it reaches
  \<^verbatim>\<open>Permissions.askAsync(Permissions.BLUETOOTH)\<close>, and \<^verbatim>\<open>Permissions\<close> is bound
  nowhere in the module, so where the runtime has no global of that name the handler
  rejects with a ReferenceError before any capability is requested
  (\<open>requestPermissions_unbound\<close>): no boolean is returned. On iOS, from the initial
  screen:
\<close>

theorem requestPermissions_ios_throws:
  "requestPermissions (android_env\<lparr>Platform_OS := ''ios''\<rparr>) initial_screen
     = (Inl (ReferenceError ''Permissions''), initial_screen)"
  by (simp add: requestPermissions_def android_env_def)

lemma parseInt10_Some_nonempty: "parseInt10 v = Some n \<Longrightarrow> v \<noteq> []"
  by (auto simp add: parseInt10_def)

lemma android_permissions_parsed:
  assumes "parseInt10 v = Some n"
  shows "android_permissions (Some v) =
           (if n < 12 then [ACCESS_FINE_LOCATION]
            else [ACCESS_FINE_LOCATION, BLUETOOTH_SCAN, BLUETOOTH_CONNECT])"
  using assms parseInt10_Some_nonempty [OF assms]
  by (simp add: android_permissions_def splice_def)

lemma requestPermissions_android_trace:
  "Platform_OS e = ''android'' \<Longrightarrow>
   trace (snd (requestPermissions e s)) =
     trace s @ [Called_requestMultiple (android_permissions (Device_osVersion e))]"
  by (simp add: requestPermissions_def emit_def Let_def split: sum.splits)

lemma parseInt10_11: "parseInt10 ''11'' = Some 11"
  by (simp add: parseInt10_def is_space_def is_digit_def)

lemma parseInt10_12: "parseInt10 ''12'' = Some 12"
  by (simp add: parseInt10_def is_space_def is_digit_def)

lemma parseInt10_13: "parseInt10 ''13'' = Some 13"
  by (simp add: parseInt10_def is_space_def is_digit_def)

text \<open>
  Claim C5, as amended. On Android, when \<^verbatim>\<open>parseInt(Device.osVersion, 10)\<close> is a
  number \<open>n\<close>: below 12 the handler requests the fine-location permission
  \<^verbatim>\<open>ACCESS_FINE_LOCATION\<close> and nothing else; from 12 on it requests fine location,
  \<^verbatim>\<open>BLUETOOTH_SCAN\<close> and \<^verbatim>\<open>BLUETOOTH_CONNECT\<close>. The request is the single call of
  \<^verbatim>\<open>requestMultiple\<close> that the handler makes.
\<close>

theorem requestPermissions_android_by_version:
  assumes "Platform_OS e = ''android''" and "Device_osVersion e = Some v"
    and "parseInt10 v = Some n"
  shows "(n < 12 \<longrightarrow>
            trace (snd (requestPermissions e s)) =
              trace s @ [Called_requestMultiple [ACCESS_FINE_LOCATION]])
       \<and> (12 \<le> n \<longrightarrow>
            trace (snd (requestPermissions e s)) =
              trace s @ [Called_requestMultiple
                [ACCESS_FINE_LOCATION, BLUETOOTH_SCAN, BLUETOOTH_CONNECT]])"
  using assms by (simp add: requestPermissions_android_trace android_permissions_parsed)

theorem requestPermissions_android_by_version_witness:
  "trace (snd (requestPermissions (android_env\<lparr>Device_osVersion := Some ''11''\<rparr>) initial_screen))
     = [Called_requestMultiple [ACCESS_FINE_LOCATION]]
   \<and> trace (snd (requestPermissions (android_env\<lparr>Device_osVersion := Some ''12''\<rparr>) initial_screen))
     = [Called_requestMultiple [ACCESS_FINE_LOCATION, BLUETOOTH_SCAN, BLUETOOTH_CONNECT]]"
  using
    requestPermissions_android_by_version
      [of "android_env\<lparr>Device_osVersion := Some ''11''\<rparr>" "''11''" 11 initial_screen]
    requestPermissions_android_by_version
      [of "android_env\<lparr>Device_osVersion := Some ''12''\<rparr>" "''12''" 12 initial_screen]
  by (simp add: android_env_def initial_screen_def parseInt10_11 parseInt10_12)

text \<open>
  Claim C5 as stated fails: on Android 11 the one permission requested is not coarse
  location.
\<close>

theorem android_11_requests_fine_location:
  "Platform_OS (android_env\<lparr>Device_osVersion := Some ''11''\<rparr>) = ''android''
   \<and> parseInt10 ''11'' = Some 11
   \<and> trace (snd (requestPermissions (android_env\<lparr>Device_osVersion := Some ''11''\<rparr>) initial_screen))
       \<noteq> [Called_requestMultiple [ACCESS_COARSE_LOCATION]]"
  by (simp add: requestPermissions_android_trace android_permissions_parsed parseInt10_11
      android_env_def initial_screen_def)

text \<open>
  Claim C6. On Android, when \<^verbatim>\<open>parseInt(Device.osVersion, 10)\<close> is a number \<open>n\<close>, the
  array handed to \<^verbatim>\<open>requestMultiple\<close> contains \<^verbatim>\<open>BLUETOOTH_SCAN\<close> and
  \<^verbatim>\<open>BLUETOOTH_CONNECT\<close> if \<open>n\<close> is at least 12, and contains neither if \<open>n\<close> is below
  12.
\<close>

theorem requestPermissions_scan_connect_threshold:
  assumes "Platform_OS e = ''android''" and "Device_osVersion e = Some v"
    and "parseInt10 v = Some n"
  shows "trace (snd (requestPermissions e s)) =
           trace s @ [Called_requestMultiple (android_permissions (Device_osVersion e))]
       \<and> (12 \<le> n \<longrightarrow>
            BLUETOOTH_SCAN \<in> set (android_permissions (Device_osVersion e)) \<and>
            BLUETOOTH_CONNECT \<in> set (android_permissions (Device_osVersion e)))
       \<and> (n < 12 \<longrightarrow>
            BLUETOOTH_SCAN \<notin> set (android_permissions (Device_osVersion e)) \<and>
            BLUETOOTH_CONNECT \<notin> set (android_permissions (Device_osVersion e)))"
  using assms by (simp add: requestPermissions_android_trace android_permissions_parsed)

theorem requestPermissions_scan_connect_threshold_witness:
  "BLUETOOTH_SCAN \<in> set (android_permissions (Device_osVersion android_env))
   \<and> BLUETOOTH_CONNECT \<in> set (android_permissions (Device_osVersion android_env))
   \<and> BLUETOOTH_SCAN \<notin>
       set (android_permissions (Device_osVersion (android_env\<lparr>Device_osVersion := Some ''11''\<rparr>)))
   \<and> BLUETOOTH_CONNECT \<notin>
       set (android_permissions (Device_osVersion (android_env\<lparr>Device_osVersion := Some ''11''\<rparr>)))"
  using
    requestPermissions_scan_connect_threshold
      [of android_env "''13''" 13 initial_screen]
    requestPermissions_scan_connect_threshold
      [of "android_env\<lparr>Device_osVersion := Some ''11''\<rparr>" "''11''" 11 initial_screen]
  by (simp add: android_env_def parseInt10_11 parseInt10_13)

subsection \<open>\<^verbatim>\<open>discoverDevices\<close>\<close>

lemma scanning_set_in_body: "scanning (snd (discoverDevices_try e s)) = True"
  by (auto simp add: discoverDevices_try_def requestPermissions_def checkBluetooth_def emit_def
      Let_def split: prod.splits sum.splits option.splits if_splits)

text \<open>
  Claim C7. After every call of \<^verbatim>\<open>discoverDevices\<close> the scanning flag is false,
  whatever the collaborators answer and whatever the screen was: the body raises the flag
  on each of its paths (\<open>scanning_set_in_body\<close>: normal completion, the two early
  returns, a throw), and the \<^verbatim>\<open>finally\<close> block lowers it, also when the \<^verbatim>\<open>catch\<close>
  block throws in turn.
\<close>

theorem discoverDevices_clears_scanning:
  "scanning (snd (discoverDevices e s)) = False"
  by (simp add: discoverDevices_def try_catch_finally_def split: prod.splits sum.splits)

lemma requestPermissions_fst: "fst (requestPermissions e s) = fst (requestPermissions e s')"
  by (simp add: requestPermissions_def Let_def split: sum.splits option.splits)

lemma requestPermissions_snd:
  "snd (requestPermissions e s) = s\<lparr>trace := trace (snd (requestPermissions e s))\<rparr>"
  by (simp add: requestPermissions_def emit_def Let_def split: sum.splits option.splits)

lemma requestPermissions_trace_frame:
  "trace s' = trace s \<Longrightarrow>
   trace (snd (requestPermissions e s')) = trace (snd (requestPermissions e s))"
  by (simp add: requestPermissions_def emit_def Let_def split: sum.splits option.splits)

lemma requestPermissions_events:
  "\<exists>evs. trace (snd (requestPermissions e s)) = trace s @ evs \<and>
         Called_isBluetoothEnabled \<notin> set evs \<and> Called_startDiscovery \<notin> set evs"
  by (simp add: requestPermissions_def emit_def Let_def split: sum.splits option.splits)

lemma denied_env_denies: "fst (requestPermissions denied_env initial_screen) = Inr False"
  by (simp add: requestPermissions_def denied_env_def android_env_def android_permissions_def
      parseInt10_13 emit_def)

lemma denied_env_trace:
  "trace (snd (requestPermissions denied_env initial_screen)) =
     [Called_requestMultiple [ACCESS_FINE_LOCATION, BLUETOOTH_SCAN, BLUETOOTH_CONNECT]]"
  by (simp add: requestPermissions_def denied_env_def android_env_def android_permissions_def
      parseInt10_13 emit_def initial_screen_def)

text \<open>
  Claim C9. When the permission request is denied, that is when \<^verbatim>\<open>requestPermissions\<close>
  resolves with \<^verbatim>\<open>false\<close>, \<^verbatim>\<open>discoverDevices\<close> shows the alert "Permissions
  required" and returns: what it adds to the trace is what \<^verbatim>\<open>requestPermissions\<close>
  added followed by that alert, so neither \<^verbatim>\<open>isBluetoothEnabled\<close> nor
  \<^verbatim>\<open>startDiscovery\<close> is called; the device list is empty, the scanning flag is false,
  and the rest of the screen, the adapter flag included, is as before.
\<close>

theorem discoverDevices_permission_denied:
  assumes "fst (requestPermissions e s) = Inr False"
  shows "discoverDevices e s =
           (Inr (),
            s\<lparr>devices := [], scanning := False,
              trace := trace (snd (requestPermissions e s)) @
                [Alert_alert ''Permissions required''
                   ''Bluetooth and location permissions are needed to find devices'']\<rparr>)
         \<and> Called_isBluetoothEnabled \<notin>
             set (drop (length (trace s)) (trace (snd (discoverDevices e s))))
         \<and> Called_startDiscovery \<notin>
             set (drop (length (trace s)) (trace (snd (discoverDevices e s))))"
proof -
  let ?s1 = "s\<lparr>scanning := True, devices := []\<rparr>"
  obtain r s2 where rp: "requestPermissions e ?s1 = (r, s2)"
    by (cases "requestPermissions e ?s1")
  have r: "r = Inr False"
    using requestPermissions_fst [of e ?s1 s] rp assms by simp
  have tr: "trace s2 = trace (snd (requestPermissions e s))"
    using requestPermissions_trace_frame [of ?s1 s e] rp by simp
  have s2: "s2 = ?s1\<lparr>trace := trace s2\<rparr>"
    using requestPermissions_snd [of e ?s1] rp by simp
  have eq: "discoverDevices e s =
           (Inr (),
            s\<lparr>devices := [], scanning := False,
              trace := trace (snd (requestPermissions e s)) @
                [Alert_alert ''Permissions required''
                   ''Bluetooth and location permissions are needed to find devices'']\<rparr>)"
    unfolding discoverDevices_def discoverDevices_try_def try_catch_finally_def
    using rp r tr by (subst (asm) s2) (simp add: emit_def)
  obtain evs where evs: "trace (snd (requestPermissions e s)) = trace s @ evs"
    "Called_isBluetoothEnabled \<notin> set evs" "Called_startDiscovery \<notin> set evs"
    using requestPermissions_events [of e s] by blast
  show ?thesis
    using eq evs by simp
qed

theorem discoverDevices_permission_denied_witness:
  "discoverDevices denied_env initial_screen =
     (Inr (),
      initial_screen\<lparr>trace :=
        [Called_requestMultiple [ACCESS_FINE_LOCATION, BLUETOOTH_SCAN, BLUETOOTH_CONNECT],
         Alert_alert ''Permissions required''
           ''Bluetooth and location permissions are needed to find devices'']\<rparr>)"
  using discoverDevices_permission_denied [OF denied_env_denies]
  by (simp add: denied_env_trace) (simp add: initial_screen_def)

subsection \<open>\<^verbatim>\<open>connectToDevice\<close>\<close>

text \<open>
  Claim C8. \<^verbatim>\<open>connectToDevice(device)\<close> always ends with the loading flag false.
  When \<^verbatim>\<open>device.connect()\<close> resolves with \<^verbatim>\<open>true\<close>, the device becomes the connected
  device. When it resolves with \<^verbatim>\<open>false\<close>, the alert "Connection failed" is shown and
  the connected device is what it was before, so a disconnected screen stays
  disconnected. When it throws an error with a message, the error is logged, the alert
  "Error" with that message is shown, and again the connected device is unchanged. In
  each case the handler itself resolves, and nothing else of the screen changes.
\<close>

theorem connectToDevice_outcomes:
  "loading (snd (connectToDevice e d s)) = False
   \<and> (device_connect e d = Inr True \<longrightarrow>
        connectToDevice e d s =
          (Inr (), s\<lparr>connectedDevice := Some d, loading := False,
                     trace := trace s @ [Called_connect d]\<rparr>))
   \<and> (device_connect e d = Inr False \<longrightarrow>
        connectToDevice e d s =
          (Inr (), s\<lparr>loading := False,
                     trace := trace s @
                       [Called_connect d,
                        Alert_alert ''Connection failed'' ''Could not connect to the device'']\<rparr>))
   \<and> (device_connect e d = Inl err \<longrightarrow> message err = Inr m \<longrightarrow>
        connectToDevice e d s =
          (Inr (), s\<lparr>loading := False,
                     trace := trace s @
                       [Called_connect d, Console_error ''Connection error'' err,
                        Alert_alert ''Error'' (''Connection failed: '' @ m)]\<rparr>))"
  by (simp add: connectToDevice_def connectToDevice_try_def handler_defs
      split: sum.splits prod.splits)

theorem connectToDevice_outcomes_witness:
  "connectToDevice android_env deviceA initial_screen =
     (Inr (), initial_screen\<lparr>connectedDevice := Some deviceA, trace := [Called_connect deviceA]\<rparr>)
   \<and> connectToDevice (android_env\<lparr>device_connect := (\<lambda>d. Inr False)\<rparr>) deviceA initial_screen =
     (Inr (), initial_screen\<lparr>trace :=
        [Called_connect deviceA,
         Alert_alert ''Connection failed'' ''Could not connect to the device'']\<rparr>)
   \<and> connectToDevice (android_env\<lparr>device_connect := (\<lambda>d. Inl (JsError ''socket closed''))\<rparr>)
        deviceA initial_screen =
     (Inr (), initial_screen\<lparr>trace :=
        [Called_connect deviceA, Console_error ''Connection error'' (JsError ''socket closed''),
         Alert_alert ''Error'' ''Connection failed: socket closed'']\<rparr>)"
  using
    connectToDevice_outcomes [of android_env deviceA initial_screen]
    connectToDevice_outcomes
      [of "android_env\<lparr>device_connect := (\<lambda>d. Inr False)\<rparr>" deviceA initial_screen]
    connectToDevice_outcomes
      [of "android_env\<lparr>device_connect := (\<lambda>d. Inl (JsError ''socket closed''))\<rparr>" deviceA
          initial_screen "JsError ''socket closed''" "''socket closed''"]
  by (simp add: android_env_def initial_screen_def)

subsection \<open>\<^verbatim>\<open>withBluetoothClassic\<close>\<close>

lemma withBluetoothClassic_modResults:
  "modResults (withBluetoothClassic c) =
     AList.update ''UIBackgroundModes'' (PArray [''bluetooth-central''])
       (AList.update ''NSBluetoothPeripheralUsageDescription''
          (PString ''Allow Bluetooth access to connect to E-Cleaning devices'')
          (AList.update ''NSBluetoothAlwaysUsageDescription''
             (PString ''Allow Bluetooth access to connect to E-Cleaning devices'')
             (modResults c)))"
  by (simp add: withBluetoothClassic_def withInfoPlist_def withBluetoothClassic_action_def)

lemma withBluetoothClassic_more: "modT.more (withBluetoothClassic c) = modT.more c"
  by (simp add: withBluetoothClassic_def withInfoPlist_def withBluetoothClassic_action_def)

text \<open>
  The action returns the object it was given (\<^verbatim>\<open>return mod\<close>): apart from
  \<^verbatim>\<open>modResults\<close> it is unchanged.
\<close>

lemma withBluetoothClassic_action_more:
  "modT.more (withBluetoothClassic_action md) = modT.more md"
  by (simp add: withBluetoothClassic_action_def)

text \<open>
  Claim C4, as amended. For every configuration, the plugin sets the two usage
  descriptions \<^verbatim>\<open>NSBluetoothAlwaysUsageDescription\<close> and
  \<^verbatim>\<open>NSBluetoothPeripheralUsageDescription\<close> to the fixed string, and sets
  \<^verbatim>\<open>UIBackgroundModes\<close> to the one-element list \<^verbatim>\<open>['bluetooth-central']\<close>, replacing
  whatever list was there. Every other key of the manifest keeps its value.
\<close>

theorem withBluetoothClassic_writes:
  "map_of (modResults (withBluetoothClassic c)) =
     (map_of (modResults c))
       (''NSBluetoothAlwaysUsageDescription'' \<mapsto>
          PString ''Allow Bluetooth access to connect to E-Cleaning devices'',
        ''NSBluetoothPeripheralUsageDescription'' \<mapsto>
          PString ''Allow Bluetooth access to connect to E-Cleaning devices'',
        ''UIBackgroundModes'' \<mapsto> PArray [''bluetooth-central''])
   \<and> background_modes (modResults (withBluetoothClassic c)) = [''bluetooth-central'']"
  by (simp add: withBluetoothClassic_modResults AList.update_conv' background_modes_def)

text \<open>
  Claim C4 as stated fails: a manifest that already lists the background mode
  \<^verbatim>\<open>audio\<close> comes out listing only \<^verbatim>\<open>bluetooth-central\<close>.
\<close>

theorem withBluetoothClassic_drops_audio:
  "background_modes [(''UIBackgroundModes'', PArray [''audio''])] = [''audio'']
   \<and> background_modes
        (modResults (withBluetoothClassic
           \<lparr>modResults = [(''UIBackgroundModes'', PArray [''audio''])]\<rparr>))
       = [''bluetooth-central'']
   \<and> ''audio'' \<notin> set (background_modes
        (modResults (withBluetoothClassic
           \<lparr>modResults = [(''UIBackgroundModes'', PArray [''audio''])]\<rparr>)))"
  by (simp add: withBluetoothClassic_modResults background_modes_def)

text \<open>
  Claim C10. The plugin is idempotent: applied to its own result it changes nothing,
  since each of the three keys it writes already holds the constant it writes.
\<close>

theorem withBluetoothClassic_idempotent:
  "withBluetoothClassic (withBluetoothClassic c) = withBluetoothClassic c"
proof -
  have "modResults (withBluetoothClassic (withBluetoothClassic c)) =
          modResults (withBluetoothClassic c)"
    by (simp add: withBluetoothClassic_modResults AList.update_conv' AList.update_triv)
  moreover have "modT.more (withBluetoothClassic (withBluetoothClassic c)) =
          modT.more (withBluetoothClassic c)"
    by (simp add: withBluetoothClassic_more)
  ultimately show ?thesis
    by (rule modT.equality)
qed

end
